theory Spec2Isabelle
  imports Complex_Main
begin

section \<open>Evaluation datasets of GLM-130B: \<^verbatim>\<open>evaluation/dataset.py\<close>\<close>

text \<open>
  A shallow embedding of the index arithmetic, the truncation rules and the batch padding
  of \<^verbatim>\<open>evaluation/dataset.py\<close>. Python integers are \<^typ>\<open>int\<close>, token sequences are
  \<^typ>\<open>int list\<close>, a raised exception is the \<open>Inl\<close> branch of a sum.
\<close>

subsection \<open>Python and numpy primitives\<close>

datatype assertion = TargetTooLong | BlankFillingWithMultitask

datatype py_error =
  ValueError | IndexError | ZeroDivisionError | AttributeError | AssertionError assertion

text \<open>\<^verbatim>\<open>np.zeros(n, dtype=np.int64)\<close>.\<close>

definition np_zeros :: "nat \<Rightarrow> int list" where
  "np_zeros n = replicate n 0"

text \<open>\<^verbatim>\<open>np.zeros_like(a, dtype=np.int64)\<close>: the shape of \<open>a\<close>, every entry zero.\<close>

definition np_zeros_like :: "int list \<Rightarrow> int list" where
  "np_zeros_like a = map (\<lambda>_. 0) a"

text \<open>\<^verbatim>\<open>a[..., -1:]\<close>: the last entry as a slice of length one, empty when \<open>a\<close> is.\<close>

definition last_slice :: "'a list \<Rightarrow> 'a list" where
  "last_slice a = drop (length a - 1) a"

text \<open>\<^verbatim>\<open>a.repeat(n, -1)\<close>: every entry repeated \<open>n\<close> times in place.\<close>

definition np_repeat :: "'a list \<Rightarrow> nat \<Rightarrow> 'a list" where
  "np_repeat a n = concat (map (replicate n) a)"

text \<open>
  A numpy array of any rank: its \<^verbatim>\<open>shape\<close> and its entries nested axis by axis, the way
  \<^verbatim>\<open>tolist()\<close> shows them. The shape is kept beside the entries because an axis of extent
  0 hides the extents of the axes after it.
\<close>

datatype 'a nested = Sc 'a | Ar "'a nested list"

datatype 'a ndarray = NdArray (shape: "nat list") (entries: "'a nested")

text \<open>A one-dimensional array of the given entries, \<^verbatim>\<open>np.array(xs)\<close>.\<close>

definition vec :: "'a list \<Rightarrow> 'a ndarray" where
  "vec xs = NdArray [length xs] (Ar (map Sc xs))"


text \<open>The entries of \<^verbatim>\<open>np.zeros(shape)\<close>.\<close>

fun nd_zeros :: "nat list \<Rightarrow> int nested" where
  "nd_zeros [] = Sc 0"
| "nd_zeros (d # ds) = Ar (replicate d (nd_zeros ds))"

text \<open>
  \<^verbatim>\<open>np.pad(a, pad_width=((0, n),), mode="constant", constant_values=0)\<close>: the one pair
  \<^verbatim>\<open>(0, n)\<close> is the pad width of every axis. Along the first axis \<open>n\<close> blocks of zeros follow
  the entries, and every entry is itself padded along the axes that remain; so a matrix
  gets each row lengthened by \<open>n\<close> zeros and \<open>n\<close> rows of zeros below. An array of rank 0
  has no axis and is returned as it is; so is a value whose nesting is not that of its
  shape, which no array is.
\<close>

fun pad_axes :: "nat list \<Rightarrow> int nested \<Rightarrow> nat \<Rightarrow> int nested" where
  "pad_axes (d # ds) (Ar xs) n =
     Ar (map (\<lambda>x. pad_axes ds x n) xs @ replicate n (nd_zeros (map (\<lambda>k. k + n) ds)))"
| "pad_axes sh a n = a"

definition np_pad :: "int ndarray \<Rightarrow> nat \<Rightarrow> int ndarray" where
  "np_pad a n = NdArray (map (\<lambda>k. k + n) (shape a)) (pad_axes (shape a) (entries a) n)"

text \<open>\<^verbatim>\<open>max\<close> of an iterable: \<^verbatim>\<open>ValueError\<close> on an empty one.\<close>

fun py_max :: "int list \<Rightarrow> py_error + int" where
  "py_max [] = Inl ValueError"
| "py_max (x # xs) = Inr (fold max xs x)"

text \<open>
  A slice bound of Python: a negative bound counts from the end, and every bound is
  clipped to the sequence.
\<close>

definition slice_bound :: "nat \<Rightarrow> int \<Rightarrow> nat" where
  "slice_bound n i = (if i < 0 then nat (max (i + int n) 0) else min (nat i) n)"

text \<open>\<^verbatim>\<open>xs[a:b]\<close>.\<close>

definition py_slice :: "'a list \<Rightarrow> int \<Rightarrow> int \<Rightarrow> 'a list" where
  "py_slice xs a b =
     (let lo = slice_bound (length xs) a; hi = slice_bound (length xs) b
      in take (hi - lo) (drop lo xs))"

text \<open>\<^verbatim>\<open>xs[i]\<close> at an index that is never negative.\<close>

definition py_getitem :: "'a list \<Rightarrow> nat \<Rightarrow> py_error + 'a" where
  "py_getitem xs i = (if i < length xs then Inr (xs ! i) else Inl IndexError)"

subsection \<open>\<^verbatim>\<open>pad_batch\<close>\<close>

text \<open>
  Modelled from the spec: the shape of a Materialized Batch Item. The sample builders of
  the model collaborator are not part of the sources; by the data model \<open>token\<close> and
  \<open>position_id\<close> are one-dimensional integer sequences. The attention mask is an array of
  any rank, since \<^verbatim>\<open>np.pad\<close> pads every axis of what it is given.
\<close>

record sample =
  token :: "int list"
  position_id :: "int list"
  attention_mask :: "int ndarray"

text \<open>
  A negative \<open>pad_length\<close> makes \<^verbatim>\<open>np.pad\<close>, the first call, raise \<^verbatim>\<open>ValueError\<close>.
\<close>

definition pad_batch ::
  "int list \<Rightarrow> int list \<Rightarrow> int ndarray \<Rightarrow> int \<Rightarrow>
     py_error + (int list \<times> int list \<times> int ndarray)"
where
  "pad_batch toks pos_ids att_mask max_seq_len =
     (let pad_length = max_seq_len - int (length toks) in
      if pad_length < 0 then Inl ValueError
      else
        let att_mask' = np_pad att_mask (nat pad_length);
            toks' = toks @ np_zeros (nat pad_length);
            pos_ids' = pos_ids @ np_repeat (np_zeros_like (last_slice pos_ids)) (nat pad_length)
        in Inr (toks', pos_ids', att_mask'))"

subsection \<open>The collate operations\<close>

record generation_sample = sample +
  context_length :: int
  target_position_id :: "int list"

record multi_choice_sample = sample +
  choices :: "int list list"
  choice_target_ids :: "int list list"

record padded_batch =
  batch_tokens :: "int list list"
  batch_position_ids :: "int list list"
  batch_attention_mask :: "bool ndarray list"

record generation_batch = padded_batch +
  batch_context_length :: "int list"
  batch_target_position_ids :: "int list list"

record multi_choice_batch = padded_batch +
  batch_choices :: "int list list list"
  batch_choice_target_ids :: "int list list list"
  batch_is_single_token :: bool

definition TILE :: int where
  "TILE = 32"

text \<open>
  \<^verbatim>\<open>(max(map(lambda spl: len(spl["token"]), samples)) + TILE - 1) // TILE * TILE\<close>, the first
  statement of both collate operations.
\<close>

definition length_to_pad :: "('a sample_scheme) list \<Rightarrow> py_error + int" where
  "length_to_pad samples =
     (case py_max (map (\<lambda>spl. int (length (token spl))) samples) of
        Inl e \<Rightarrow> Inl e
      | Inr m \<Rightarrow> Inr ((m + TILE - 1) div TILE * TILE))"

text \<open>
  The loop over the samples of both collate operations: each sample is padded and its
  three sequences appended to the three batches.
\<close>

fun pad_samples ::
  "('a sample_scheme) list \<Rightarrow> int \<Rightarrow>
     py_error + (int list list \<times> int list list \<times> int ndarray list)"
where
  "pad_samples [] l = Inr ([], [], [])"
| "pad_samples (spl # rest) l =
     (case pad_batch (token spl) (position_id spl) (attention_mask spl) l of
        Inl e \<Rightarrow> Inl e
      | Inr (t, p, a) \<Rightarrow>
          (case pad_samples rest l of
             Inl e \<Rightarrow> Inl e
           | Inr (ts, ps, ms) \<Rightarrow> Inr (t # ts, p # ps, a # ms)))"

text \<open>The delivered mask is \<^verbatim>\<open>tensor < 0.5\<close>, entry by entry, on an integer tensor.\<close>

definition deliver_mask :: "int ndarray list \<Rightarrow> bool ndarray list" where
  "deliver_mask m = map (map_ndarray (\<lambda>v. v < 1)) m"

text \<open>\<^verbatim>\<open>GenerationTaskDataset.collate_fn\<close>.\<close>

definition generation_collate_fn :: "generation_sample list \<Rightarrow> py_error + generation_batch" where
  "generation_collate_fn samples =
     (case length_to_pad samples of
        Inl e \<Rightarrow> Inl e
      | Inr l \<Rightarrow>
          (case pad_samples samples l of
             Inl e \<Rightarrow> Inl e
           | Inr (ts, ps, ms) \<Rightarrow>
               Inr \<lparr>batch_tokens = ts, batch_position_ids = ps,
                    batch_attention_mask = deliver_mask ms,
                    batch_context_length = map context_length samples,
                    batch_target_position_ids = map target_position_id samples\<rparr>))"

text \<open>
  \<^verbatim>\<open>MultiChoiceTaskDataset.collate_fn\<close>; the dataset's \<^verbatim>\<open>is_single_token\<close> is its first
  argument.
\<close>

definition multi_choice_collate_fn ::
  "bool \<Rightarrow> multi_choice_sample list \<Rightarrow> py_error + multi_choice_batch"
where
  "multi_choice_collate_fn single samples =
     (case length_to_pad samples of
        Inl e \<Rightarrow> Inl e
      | Inr l \<Rightarrow>
          (case pad_samples samples l of
             Inl e \<Rightarrow> Inl e
           | Inr (ts, ps, ms) \<Rightarrow>
               Inr \<lparr>batch_tokens = ts, batch_position_ids = ps,
                    batch_attention_mask = deliver_mask ms,
                    batch_choices = map choices samples,
                    batch_choice_target_ids = map choice_target_ids samples,
                    batch_is_single_token = single\<rparr>))"

subsection \<open>Configurations\<close>

text \<open>
  Modelled from the spec: the configuration classes of \<^verbatim>\<open>evaluation/configs.py\<close> are not
  part of the sources; these are the fields the dataset code reads from them, all Python
  integers and booleans with no validation.
\<close>

record config =
  max_seq_length :: int

record generation_config = config +
  max_gen_length :: int

record multi_choice_config = config +
  use_multitask_encoding :: bool

record language_model_config = config +
  generation_length :: int

subsection \<open>\<^verbatim>\<open>GenerationTaskDataset.process_single_item\<close>\<close>

text \<open>
  What \<^verbatim>\<open>get_tokenized_input(item, "targets")\<close> returns: one token sequence, or a list of
  token sequences.
\<close>

datatype tokenized_targets = FlatTargets "int list" | NestedTargets "int list list"

text \<open>
  \<^verbatim>\<open>if len(targets) and (not isinstance(targets[0], list)): targets = [targets]\<close>.
\<close>

fun wrap_targets :: "tokenized_targets \<Rightarrow> int list list" where
  "wrap_targets (FlatTargets t) = (if t = [] then [] else [t])"
| "wrap_targets (NestedTargets ts) = ts"

record generation_item =
  gen_text :: "int list"
  gen_targets :: "int list list"

definition generation_process_single_item ::
  "generation_config \<Rightarrow> int list \<Rightarrow> tokenized_targets \<Rightarrow> generation_item list"
where
  "generation_process_single_item cfg txt tgts =
     (let targets = wrap_targets tgts;
          txt' =
            (if int (length txt) + max_gen_length cfg + 2 > max_seq_length cfg then
               let text_length = max_seq_length cfg - max_gen_length cfg - 2
               in py_slice txt (int (length txt) - text_length) (int (length txt))
             else txt)
      in [\<lparr>gen_text = txt', gen_targets = targets\<rparr>])"

subsection \<open>\<^verbatim>\<open>MultiChoiceTaskDataset\<close>: expansion of the records\<close>

record multi_choice_item =
  mc_text :: "int list"
  mc_choices :: "int list list"
  mc_label :: int

text \<open>The tokenized fields of one input line: inputs, choices and label.\<close>

type_synonym multi_choice_record = "int list \<times> int list list \<times> int"

record multi_choice_dataset =
  mc_data :: "multi_choice_item list"
  is_single_token :: bool

text \<open>
  Lines 173 to 176: the sum of the choices' lengths, replaced by 1 when it equals the
  number of choices.
\<close>

definition tgt_seq_length :: "int list list \<Rightarrow> int" where
  "tgt_seq_length chs =
     (let t = sum_list (map (\<lambda>choice. int (length choice)) chs)
      in if t = int (length chs) then 1 else t)"

text \<open>
  The method returns the list of expanded items; its side effect on the flag is the
  second component. The tokenizer's \<^verbatim>\<open>mask_id\<close> is a parameter.
\<close>

definition multi_choice_process_single_item ::
  "multi_choice_config \<Rightarrow> int \<Rightarrow> multi_choice_dataset \<Rightarrow> multi_choice_record \<Rightarrow>
     py_error + (multi_choice_item list \<times> multi_choice_dataset)"
where
  "multi_choice_process_single_item cfg mask_id self item =
     (case item of (txt, chs, lbl) \<Rightarrow>
        let tgt = tgt_seq_length chs in
        if \<not> tgt < max_seq_length cfg then Inl (AssertionError TargetTooLong)
        else
          let txt' =
                (if int (length txt) + tgt + 2 > max_seq_length cfg then
                   let text_length = max_seq_length cfg - tgt - 2
                   in py_slice txt (int (length txt) - text_length) (int (length txt))
                 else txt)
          in
            if mask_id \<in> set txt' \<and> use_multitask_encoding cfg
            then Inl (AssertionError BlankFillingWithMultitask)
            else
              let self' = (if tgt \<noteq> 1 then self\<lparr>is_single_token := False\<rparr> else self)
              in Inr ([\<lparr>mc_text = txt', mc_choices = chs, mc_label = lbl\<rparr>], self'))"

text \<open>
  \<^verbatim>\<open>EvaluationDataset.process_single_file\<close> on the parsed lines of one file: every line is
  expanded and the result appended to \<^verbatim>\<open>self.data\<close>; the first exception ends the loop.
\<close>

fun multi_choice_process_single_file ::
  "multi_choice_config \<Rightarrow> int \<Rightarrow> multi_choice_dataset \<Rightarrow> multi_choice_record list \<Rightarrow>
     py_error + multi_choice_dataset"
where
  "multi_choice_process_single_file cfg mask_id self [] = Inr self"
| "multi_choice_process_single_file cfg mask_id self (item # rest) =
     (case multi_choice_process_single_item cfg mask_id self item of
        Inl e \<Rightarrow> Inl e
      | Inr (items, self') \<Rightarrow>
          multi_choice_process_single_file cfg mask_id
            (self'\<lparr>mc_data := mc_data self' @ items\<rparr>) rest)"

text \<open>The loop \<^verbatim>\<open>for p in self.path: self.process_single_file(p)\<close>.\<close>

fun multi_choice_process_files ::
  "multi_choice_config \<Rightarrow> int \<Rightarrow> multi_choice_dataset \<Rightarrow> multi_choice_record list list \<Rightarrow>
     py_error + multi_choice_dataset"
where
  "multi_choice_process_files cfg mask_id self [] = Inr self"
| "multi_choice_process_files cfg mask_id self (file # files) =
     (case multi_choice_process_single_file cfg mask_id self file of
        Inl e \<Rightarrow> Inl e
      | Inr self' \<Rightarrow> multi_choice_process_files cfg mask_id self' files)"

text \<open>
  \<^verbatim>\<open>MultiChoiceTaskDataset.__init__\<close>: the flag is set to \<^verbatim>\<open>True\<close>, the data to the empty
  list, then every file is processed.
\<close>

definition multi_choice_init ::
  "multi_choice_config \<Rightarrow> int \<Rightarrow> multi_choice_record list list \<Rightarrow> py_error + multi_choice_dataset"
where
  "multi_choice_init cfg mask_id files =
     multi_choice_process_files cfg mask_id \<lparr>mc_data = [], is_single_token = True\<rparr> files"

subsection \<open>\<^verbatim>\<open>LanguageModelTaskDataset\<close>\<close>

text \<open>
  \<^verbatim>\<open>math.ceil(a / b)\<close> on integers. The quotient of the source is a float; the model is
  exact, which the float is for every dividend below \<open>2 ^ 53\<close>.
\<close>

definition py_ceil_div :: "int \<Rightarrow> int \<Rightarrow> py_error + int" where
  "py_ceil_div a b = (if b = 0 then Inl ZeroDivisionError else Inr (- ((- a) div b)))"

text \<open>\<^verbatim>\<open>list(accumulate(xs))\<close>: the running sums.\<close>

fun accumulate_from :: "int \<Rightarrow> int list \<Rightarrow> int list" where
  "accumulate_from acc [] = []"
| "accumulate_from acc (x # xs) = (acc + x) # accumulate_from (acc + x) xs"

definition accumulate :: "int list \<Rightarrow> int list" where
  "accumulate xs = accumulate_from 0 xs"

text \<open>
  \<^verbatim>\<open>bisect_right(a, x)\<close> of the standard library: the binary search
  \<^verbatim>\<open>while lo < hi: mid = (lo + hi) // 2; if x < a[mid]: hi = mid else: lo = mid + 1\<close>.
\<close>

function bisect_loop :: "int list \<Rightarrow> int \<Rightarrow> nat \<Rightarrow> nat \<Rightarrow> nat" where
  "bisect_loop a x lo hi =
     (if lo < hi then
        let mid = (lo + hi) div 2
        in if x < a ! mid then bisect_loop a x lo mid else bisect_loop a x (mid + 1) hi
      else lo)"
  by pat_completeness auto
termination
  by (relation "measure (\<lambda>(a, x, lo, hi). hi - lo)") auto

definition bisect_right :: "int list \<Rightarrow> int \<Rightarrow> nat" where
  "bisect_right a x = bisect_loop a x 0 (length a)"

record document =
  raw_text :: "int list"
  num_original_tokens :: int
  num_sequences :: int

text \<open>
  The attributes \<^verbatim>\<open>weights\<close> and \<^verbatim>\<open>left_weights\<close> exist only once a file has been
  processed; reading them before raises \<^verbatim>\<open>AttributeError\<close>.
\<close>

record language_model_dataset =
  data :: "document list"
  weights :: "int list option"
  left_weights :: "int list option"

text \<open>
  One source file after tokenization: the tokens of the whole text and the number of its
  blank-separated words. The tokenizer is an external collaborator.
\<close>

type_synonym tokenized_file = "int list \<times> int"

text \<open>
  \<^verbatim>\<open>LanguageModelTaskDataset.process_single_file\<close>. The list \<^verbatim>\<open>num_sequences\<close> is local to
  the call: it starts empty and receives the one count of this file.
\<close>

definition language_model_process_single_file ::
  "language_model_config \<Rightarrow> language_model_dataset \<Rightarrow> tokenized_file \<Rightarrow>
     py_error + language_model_dataset"
where
  "language_model_process_single_file cfg self file =
     (case file of (toks, words) \<Rightarrow>
        (case py_ceil_div (max (int (length toks) - (max_seq_length cfg - 1)) 0)
                (generation_length cfg) of
           Inl e \<Rightarrow> Inl e
         | Inr c \<Rightarrow>
             let doc = \<lparr>raw_text = toks, num_original_tokens = words,
                        num_sequences = max (c + 1) 1\<rparr>;
                 data' = data self @ [doc];
                 counts = [] @ [num_sequences (last data')];
                 weights' = accumulate counts
             in Inr (self\<lparr>data := data', weights := Some weights',
                          left_weights := Some ([0] @ butlast weights')\<rparr>)))"

fun language_model_process_files ::
  "language_model_config \<Rightarrow> language_model_dataset \<Rightarrow> tokenized_file list \<Rightarrow>
     py_error + language_model_dataset"
where
  "language_model_process_files cfg self [] = Inr self"
| "language_model_process_files cfg self (file # files) =
     (case language_model_process_single_file cfg self file of
        Inl e \<Rightarrow> Inl e
      | Inr self' \<Rightarrow> language_model_process_files cfg self' files)"

text \<open>\<^verbatim>\<open>EvaluationDataset.__init__\<close> for the language-model dataset.\<close>

definition language_model_init ::
  "language_model_config \<Rightarrow> tokenized_file list \<Rightarrow> py_error + language_model_dataset"
where
  "language_model_init cfg files =
     language_model_process_files cfg \<lparr>data = [], weights = None, left_weights = None\<rparr> files"

text \<open>\<^verbatim>\<open>LanguageModelTaskDataset.__len__\<close>: \<^verbatim>\<open>self.data[0]["num_sequences"]\<close>.\<close>

definition language_model_len :: "language_model_dataset \<Rightarrow> py_error + int" where
  "language_model_len self =
     (case py_getitem (data self) 0 of Inl e \<Rightarrow> Inl e | Inr doc \<Rightarrow> Inr (num_sequences doc))"

text \<open>
  \<^verbatim>\<open>LanguageModelTaskDataset.__getitem__\<close> up to the call of the sample builder: the
  document, the local index, the slice bounds and the two computed arguments of
  \<^verbatim>\<open>build_language_model_sample\<close>.
\<close>

record window =
  document_idx :: nat
  local_idx :: int
  start_idx :: int
  end_idx :: int
  window_tokens :: "int list"
  is_first_segment :: bool

definition language_model_getitem ::
  "language_model_config \<Rightarrow> language_model_dataset \<Rightarrow> int \<Rightarrow> py_error + window"
where
  "language_model_getitem cfg self idx =
     (case weights self of
        None \<Rightarrow> Inl AttributeError
      | Some ws \<Rightarrow>
          let d = bisect_right ws idx in
          (case left_weights self of
             None \<Rightarrow> Inl AttributeError
           | Some lws \<Rightarrow>
               (case py_getitem lws d of
                  Inl e \<Rightarrow> Inl e
                | Inr lw \<Rightarrow>
                    let idx' = idx - lw;
                        start = idx' * generation_length cfg;
                        stop = start + max_seq_length cfg - 1
                    in (case py_getitem (data self) d of
                          Inl e \<Rightarrow> Inl e
                        | Inr doc \<Rightarrow>
                            Inr \<lparr>document_idx = d, local_idx = idx', start_idx = start,
                                 end_idx = stop,
                                 window_tokens = py_slice (raw_text doc) start stop,
                                 is_first_segment = (idx' = 0)\<rparr>))))"

section \<open>Properties\<close>

subsection \<open>Padding of one item\<close>

lemma np_repeat_zeros_last:
  "np_repeat (np_zeros_like (last_slice pos)) n = (if pos = [] then [] else replicate n 0)"
proof (cases pos rule: rev_cases)
  case Nil
  then show ?thesis by (simp add: np_repeat_def np_zeros_like_def last_slice_def)
next
  case (snoc ys y)
  then show ?thesis by (simp add: np_repeat_def np_zeros_like_def last_slice_def)
qed

lemma pad_batch_eq:
  assumes "int (length toks) \<le> m"
  shows "pad_batch toks pos am m =
           Inr (toks @ replicate (nat (m - int (length toks))) 0,
                pos @ (if pos = [] then [] else replicate (nat (m - int (length toks))) 0),
                np_pad am (nat (m - int (length toks))))"
  using assms
  by (simp add: pad_batch_def Let_def np_zeros_def np_repeat_zeros_last)

lemma pad_batch_error:
  "m < int (length toks) \<Longrightarrow> pad_batch toks pos am m = Inl ValueError"
  by (simp add: pad_batch_def Let_def)





text \<open>
  Claim C1, as the code has it: for an item whose token sequence is shorter than the pad
  target, \<open>pad_batch\<close> returns, the original position ids are kept, and the position-id
  slots appended after them (one per pad slot when the item has a position id at all) are
  all 0: the last real position value is used for the shape of the appended block only,
  through \<^verbatim>\<open>np.zeros_like\<close>. An item with 5 pad slots has 5 appended position ids equal
  to 0.
\<close>

theorem pad_batch_position_ids_zero:
  assumes "int (length toks) < m"
  shows "\<exists>toks' pos' am'.
           pad_batch toks pos am m = Inr (toks', pos', am') \<and>
           take (length pos) pos' = pos \<and>
           drop (length pos) pos' =
             (if pos = [] then [] else replicate (nat (m - int (length toks))) 0)"
proof -
  from assms have "int (length toks) \<le> m" by simp
  from pad_batch_eq [OF this, of pos am] show ?thesis by simp
qed

theorem pad_batch_position_ids_zero_witness:
  "int (length [11, 12, 13 :: int]) < 8 \<and>
   (\<exists>toks' pos' am'.
      pad_batch [11, 12, 13] [0, 1, 2] (vec [1, 1, 1]) 8 = Inr (toks', pos', am') \<and>
      drop 3 pos' = [0, 0, 0, 0, 0])"
  using pad_batch_position_ids_zero [of "[11, 12, 13]" 8 "[0, 1, 2]" "vec [1, 1, 1]"]
  by (auto simp: numeral_eq_Suc)

text \<open>
  Claim C1 as stated fails: three tokens with position ids 0, 1, 2 padded to length 8 do
  not get five position ids equal to the last real position value 2.
\<close>

theorem pad_batch_last_position_counterexample:
  "\<not> (\<exists>toks' am'.
        pad_batch [11, 12, 13] [0, 1, 2] (vec [1, 1, 1]) 8 =
          Inr (toks', [0, 1, 2] @ replicate 5 (last [0, 1, 2]), am'))"
  by (simp add: pad_batch_def Let_def np_zeros_def np_repeat_def
      np_zeros_like_def last_slice_def numeral_eq_Suc)




subsection \<open>The padded length of a batch\<close>

lemma py_max_Max:
  assumes "xs \<noteq> []"
  shows "py_max xs = Inr (Max (set xs))"
proof (cases xs)
  case Nil
  with assms show ?thesis by simp
next
  case (Cons a list)
  have "Max (set (a # list)) = fold max list a" by (rule Max.set_eq_fold)
  with Cons show ?thesis by simp
qed

lemma tile_round_up:
  fixes m :: int
  shows "32 dvd (m + 32 - 1) div 32 * 32"
    and "m \<le> (m + 32 - 1) div 32 * 32"
    and "32 dvd k \<Longrightarrow> m \<le> k \<Longrightarrow> (m + 32 - 1) div 32 * 32 \<le> k"
proof -
  have e: "(m + 32 - 1) div 32 * 32 = m + 31 - (m + 31) mod 32"
    by (simp add: algebra_simps minus_mod_eq_div_mult [symmetric])
  show "32 dvd (m + 32 - 1) div 32 * 32" by simp
  have "(m + 31) mod 32 \<le> 31" using pos_mod_bound [of 32 "m + 31"] by simp
  then show "m \<le> (m + 32 - 1) div 32 * 32" unfolding e by simp
  assume k: "32 dvd k" "m \<le> k"
  then obtain q where q: "k = 32 * q" by (auto simp: dvd_def)
  with k have "m + 31 < 32 * (q + 1)" by simp
  then have "(m + 31) div 32 < q + 1" by (simp add: div_less_iff_less_mult mult.commute)
  then have "(m + 32 - 1) div 32 \<le> q" by simp
  then show "(m + 32 - 1) div 32 * 32 \<le> k" using q by simp
qed

lemma length_to_pad_eq:
  assumes "samples \<noteq> []"
  shows "length_to_pad samples =
           Inr ((Max (set (map (\<lambda>spl. int (length (token spl))) samples)) + 32 - 1) div 32 * 32)"
  using assms by (simp add: length_to_pad_def py_max_Max TILE_def)

lemma pad_samples_ok:
  assumes "\<forall>s \<in> set samples. int (length (token s)) \<le> l"
  shows "\<exists>ts ps ms. pad_samples samples l = Inr (ts, ps, ms) \<and>
           (\<forall>row \<in> set ts. int (length row) = l) \<and> length ts = length samples"
  using assms
proof (induction samples)
  case Nil
  then show ?case by simp
next
  case (Cons s rest)
  then have le: "int (length (token s)) \<le> l" by simp
  from Cons obtain ts ps ms where r: "pad_samples rest l = Inr (ts, ps, ms)"
    "\<forall>row \<in> set ts. int (length row) = l" "length ts = length rest" by auto
  from le r show ?case by (simp add: pad_batch_eq [OF le])
qed

lemma length_to_pad_least:
  assumes ne: "samples \<noteq> []"
  shows "\<exists>l. length_to_pad samples = Inr l \<and> 32 dvd l \<and>
           (\<forall>s \<in> set samples. int (length (token s)) \<le> l) \<and>
           (\<forall>k. 32 dvd k \<and> (\<forall>s \<in> set samples. int (length (token s)) \<le> k) \<longrightarrow> l \<le> k)"
proof -
  define L where "L = map (\<lambda>spl. int (length (token spl))) samples"
  define M where "M = Max (set L)"
  define l where "l = (M + 32 - 1) div 32 * 32"
  from ne have Lne: "set L \<noteq> {}" by (simp add: L_def)
  have 1: "length_to_pad samples = Inr l"
    unfolding l_def M_def L_def by (rule length_to_pad_eq [OF ne])
  have 2: "32 dvd l" unfolding l_def by (rule tile_round_up(1))
  have Ml: "M \<le> l" unfolding l_def by (rule tile_round_up(2))
  have 3: "\<forall>s \<in> set samples. int (length (token s)) \<le> l"
  proof
    fix s assume "s \<in> set samples"
    then have "int (length (token s)) \<in> set L" by (simp add: L_def)
    then have "int (length (token s)) \<le> M" unfolding M_def by simp
    with Ml show "int (length (token s)) \<le> l" by simp
  qed
  have 4: "\<forall>k. 32 dvd k \<and> (\<forall>s \<in> set samples. int (length (token s)) \<le> k) \<longrightarrow> l \<le> k"
  proof (intro allI impI, elim conjE)
    fix k :: int
    assume d: "32 dvd k" and b: "\<forall>s \<in> set samples. int (length (token s)) \<le> k"
    have "M \<in> set L" unfolding M_def using Lne by (intro Max_in) simp_all
    then obtain s where "s \<in> set samples" "M = int (length (token s))"
      unfolding L_def by auto
    with b have "M \<le> k" by simp
    with d show "l \<le> k" unfolding l_def by (rule tile_round_up(3))
  qed
  from 1 2 3 4 show ?thesis by (intro exI [of _ l] conjI)
qed

lemma collate_generic:
  assumes ne: "samples \<noteq> []"
  shows "\<exists>l ts ps ms. length_to_pad samples = Inr l \<and> pad_samples samples l = Inr (ts, ps, ms) \<and>
           32 dvd l \<and>
           (\<forall>s \<in> set samples. int (length (token s)) \<le> l) \<and>
           (\<forall>k. 32 dvd k \<and> (\<forall>s \<in> set samples. int (length (token s)) \<le> k) \<longrightarrow> l \<le> k) \<and>
           (\<forall>row \<in> set ts. int (length row) = l) \<and> length ts = length samples"
proof -
  from length_to_pad_least [OF ne] obtain l where l: "length_to_pad samples = Inr l" "32 dvd l"
    "\<forall>s \<in> set samples. int (length (token s)) \<le> l"
    "\<forall>k. 32 dvd k \<and> (\<forall>s \<in> set samples. int (length (token s)) \<le> k) \<longrightarrow> l \<le> k"
    by (elim exE conjE)
  from pad_samples_ok [OF l(3)] obtain ts ps ms where p: "pad_samples samples l = Inr (ts, ps, ms)"
    "\<forall>row \<in> set ts. int (length row) = l" "length ts = length samples"
    by (elim exE conjE)
  from l p show ?thesis by (intro exI [of _ l] exI [of _ ts] exI [of _ ps] exI [of _ ms] conjI)
qed

text \<open>
  Claim C9: on a batch that is not empty both collate operations return, and the length
  they pad to is a multiple of 32, is at least the length of every token sequence of the
  batch, and is at most every multiple of 32 with that property: it is the smallest
  multiple of 32 that is at least the longest token sequence. Every row of the returned
  token batch has that length. Items of lengths 32 and 20 are padded to 32.
\<close>

theorem collate_length_to_pad:
  fixes gs :: "generation_sample list" and cs :: "multi_choice_sample list"
  assumes "gs \<noteq> []" and "cs \<noteq> []"
  shows "(\<exists>l b. length_to_pad gs = Inr l \<and> generation_collate_fn gs = Inr b \<and>
            32 dvd l \<and>
            (\<forall>s \<in> set gs. int (length (token s)) \<le> l) \<and>
            (\<forall>k. 32 dvd k \<and> (\<forall>s \<in> set gs. int (length (token s)) \<le> k) \<longrightarrow> l \<le> k) \<and>
            (\<forall>row \<in> set (batch_tokens b). int (length row) = l) \<and>
            length (batch_tokens b) = length gs) \<and>
         (\<exists>l b. length_to_pad cs = Inr l \<and> multi_choice_collate_fn single cs = Inr b \<and>
            32 dvd l \<and>
            (\<forall>s \<in> set cs. int (length (token s)) \<le> l) \<and>
            (\<forall>k. 32 dvd k \<and> (\<forall>s \<in> set cs. int (length (token s)) \<le> k) \<longrightarrow> l \<le> k) \<and>
            (\<forall>row \<in> set (batch_tokens b). int (length row) = l) \<and>
            length (batch_tokens b) = length cs)"
proof (rule conjI)
  from collate_generic [OF assms(1)] obtain l ts ps ms where
    f: "length_to_pad gs = Inr l" "pad_samples gs l = Inr (ts, ps, ms)" "32 dvd l"
       "\<forall>s \<in> set gs. int (length (token s)) \<le> l"
       "\<forall>k. 32 dvd k \<and> (\<forall>s \<in> set gs. int (length (token s)) \<le> k) \<longrightarrow> l \<le> k"
       "\<forall>row \<in> set ts. int (length row) = l" "length ts = length gs"
    by (elim exE conjE)
  define b where "b = \<lparr>batch_tokens = ts, batch_position_ids = ps,
      batch_attention_mask = deliver_mask ms,
      batch_context_length = map context_length gs,
      batch_target_position_ids = map target_position_id gs\<rparr>"
  have c: "generation_collate_fn gs = Inr b"
    by (simp add: generation_collate_fn_def f(1,2) b_def)
  have t: "batch_tokens b = ts" by (simp add: b_def)
  from f c show "\<exists>l b. length_to_pad gs = Inr l \<and> generation_collate_fn gs = Inr b \<and>
            32 dvd l \<and>
            (\<forall>s \<in> set gs. int (length (token s)) \<le> l) \<and>
            (\<forall>k. 32 dvd k \<and> (\<forall>s \<in> set gs. int (length (token s)) \<le> k) \<longrightarrow> l \<le> k) \<and>
            (\<forall>row \<in> set (batch_tokens b). int (length row) = l) \<and>
            length (batch_tokens b) = length gs"
    unfolding t [symmetric] by (intro exI [of _ l] exI [of _ b] conjI)
next
  from collate_generic [OF assms(2)] obtain l ts ps ms where
    f: "length_to_pad cs = Inr l" "pad_samples cs l = Inr (ts, ps, ms)" "32 dvd l"
       "\<forall>s \<in> set cs. int (length (token s)) \<le> l"
       "\<forall>k. 32 dvd k \<and> (\<forall>s \<in> set cs. int (length (token s)) \<le> k) \<longrightarrow> l \<le> k"
       "\<forall>row \<in> set ts. int (length row) = l" "length ts = length cs"
    by (elim exE conjE)
  define b where "b = \<lparr>batch_tokens = ts, batch_position_ids = ps,
      batch_attention_mask = deliver_mask ms,
      batch_choices = map choices cs,
      batch_choice_target_ids = map choice_target_ids cs,
      batch_is_single_token = single\<rparr>"
  have c: "multi_choice_collate_fn single cs = Inr b"
    by (simp add: multi_choice_collate_fn_def f(1,2) b_def)
  have t: "batch_tokens b = ts" by (simp add: b_def)
  from f c show "\<exists>l b. length_to_pad cs = Inr l \<and> multi_choice_collate_fn single cs = Inr b \<and>
            32 dvd l \<and>
            (\<forall>s \<in> set cs. int (length (token s)) \<le> l) \<and>
            (\<forall>k. 32 dvd k \<and> (\<forall>s \<in> set cs. int (length (token s)) \<le> k) \<longrightarrow> l \<le> k) \<and>
            (\<forall>row \<in> set (batch_tokens b). int (length row) = l) \<and>
            length (batch_tokens b) = length cs"
    unfolding t [symmetric] by (intro exI [of _ l] exI [of _ b] conjI)
qed

theorem collate_length_to_pad_witness:
  "[\<lparr>token = replicate 32 7, position_id = map int [0..<32],
      attention_mask = vec (replicate 32 1),
      context_length = 32, target_position_id = [32]\<rparr>,
    \<lparr>token = replicate 20 7, position_id = map int [0..<20],
      attention_mask = vec (replicate 20 1),
      context_length = 20, target_position_id = [20]\<rparr>] \<noteq> [] \<and>
   [\<lparr>token = replicate 32 7, position_id = map int [0..<32],
      attention_mask = vec (replicate 32 1),
      choices = [[1], [2]], choice_target_ids = [[31], [31]]\<rparr>,
    \<lparr>token = replicate 20 7, position_id = map int [0..<20],
      attention_mask = vec (replicate 20 1),
      choices = [[1], [2]], choice_target_ids = [[19], [19]]\<rparr>] \<noteq> [] \<and>
   (\<exists>b. generation_collate_fn
          [\<lparr>token = replicate 32 7, position_id = map int [0..<32],
             attention_mask = vec (replicate 32 1),
             context_length = 32, target_position_id = [32]\<rparr>,
           \<lparr>token = replicate 20 7, position_id = map int [0..<20],
             attention_mask = vec (replicate 20 1),
             context_length = 20, target_position_id = [20]\<rparr>] = Inr b \<and>
        (\<forall>row \<in> set (batch_tokens b). int (length row) = 32) \<and>
        length (batch_tokens b) = 2) \<and>
   (\<exists>b. multi_choice_collate_fn True
          [\<lparr>token = replicate 32 7, position_id = map int [0..<32],
             attention_mask = vec (replicate 32 1),
             choices = [[1], [2]], choice_target_ids = [[31], [31]]\<rparr>,
           \<lparr>token = replicate 20 7, position_id = map int [0..<20],
             attention_mask = vec (replicate 20 1),
             choices = [[1], [2]], choice_target_ids = [[19], [19]]\<rparr>] = Inr b \<and>
        (\<forall>row \<in> set (batch_tokens b). int (length row) = 32) \<and>
        length (batch_tokens b) = 2)"
  using collate_length_to_pad [of
      "[\<lparr>token = replicate 32 7, position_id = map int [0..<32],
          attention_mask = vec (replicate 32 1),
          context_length = 32, target_position_id = [32]\<rparr>,
        \<lparr>token = replicate 20 7, position_id = map int [0..<20],
          attention_mask = vec (replicate 20 1),
          context_length = 20, target_position_id = [20]\<rparr>]"
      "[\<lparr>token = replicate 32 7, position_id = map int [0..<32],
          attention_mask = vec (replicate 32 1),
          choices = [[1], [2]], choice_target_ids = [[31], [31]]\<rparr>,
        \<lparr>token = replicate 20 7, position_id = map int [0..<20],
          attention_mask = vec (replicate 20 1),
          choices = [[1], [2]], choice_target_ids = [[19], [19]]\<rparr>]" True]
  by (auto simp: length_to_pad_def TILE_def)

subsection \<open>Truncation of the text\<close>

lemma py_slice_suffix:
  assumes "k < int (length xs)"
  shows "py_slice xs (int (length xs) - k) (int (length xs)) = drop (length xs - nat k) xs"
proof (cases "0 \<le> k")
  case True
  with assms have "nat (int (length xs) - k) = length xs - nat k" by linarith
  with assms True show ?thesis
    by (simp add: py_slice_def slice_bound_def Let_def)
next
  case False
  then show ?thesis by (simp add: py_slice_def slice_bound_def Let_def)
qed

lemma length_suffix:
  assumes "k < int (length xs)"
  shows "int (length (drop (length xs - nat k) xs)) = max k 0"
  using assms by simp

text \<open>
  Claim C5, as the code has it: when \<open>len(text) + max_gen_length + 2 > max_seq_length\<close>
  the generation strategy keeps the last \<open>max(max_seq_length - max_gen_length - 2, 0)\<close>
  tokens of the text, and otherwise the whole text; the multi-choice strategy, when it
  returns, does the same with the target length in place of \<open>max_gen_length\<close>. A text of
  100 tokens with \<open>max_seq_length = 50\<close> and \<open>max_gen_length = 10\<close> keeps its last 38.
\<close>

theorem truncation_keeps_suffix:
  "(\<exists>item. generation_process_single_item gcfg txt tgts = [item] \<and>
      (if int (length txt) + max_gen_length gcfg + 2 > max_seq_length gcfg
       then gen_text item =
              drop (length txt - nat (max_seq_length gcfg - max_gen_length gcfg - 2)) txt \<and>
            int (length (gen_text item)) =
              max (max_seq_length gcfg - max_gen_length gcfg - 2) 0
       else gen_text item = txt)) \<and>
   (\<forall>its self'.
      multi_choice_process_single_item mcfg mask_id self (txt, chs, lbl) = Inr (its, self')
      \<longrightarrow> (\<exists>item. its = [item] \<and>
            (if int (length txt) + tgt_seq_length chs + 2 > max_seq_length mcfg
             then mc_text item =
                    drop (length txt - nat (max_seq_length mcfg - tgt_seq_length chs - 2)) txt \<and>
                  int (length (mc_text item)) =
                    max (max_seq_length mcfg - tgt_seq_length chs - 2) 0
             else mc_text item = txt)))"
proof (rule conjI)
  show "\<exists>item. generation_process_single_item gcfg txt tgts = [item] \<and>
      (if int (length txt) + max_gen_length gcfg + 2 > max_seq_length gcfg
       then gen_text item =
              drop (length txt - nat (max_seq_length gcfg - max_gen_length gcfg - 2)) txt \<and>
            int (length (gen_text item)) =
              max (max_seq_length gcfg - max_gen_length gcfg - 2) 0
       else gen_text item = txt)"
  proof (cases "int (length txt) + max_gen_length gcfg + 2 > max_seq_length gcfg")
    case True
    then have lt: "max_seq_length gcfg - max_gen_length gcfg - 2 < int (length txt)" by simp
    from True show ?thesis
      by (simp add: generation_process_single_item_def Let_def
          py_slice_suffix [OF lt] length_suffix [OF lt] del: length_drop)
  next
    case False
    then show ?thesis by (simp add: generation_process_single_item_def Let_def)
  qed
next
  show "\<forall>its self'.
      multi_choice_process_single_item mcfg mask_id self (txt, chs, lbl) = Inr (its, self')
      \<longrightarrow> (\<exists>item. its = [item] \<and>
            (if int (length txt) + tgt_seq_length chs + 2 > max_seq_length mcfg
             then mc_text item =
                    drop (length txt - nat (max_seq_length mcfg - tgt_seq_length chs - 2)) txt \<and>
                  int (length (mc_text item)) =
                    max (max_seq_length mcfg - tgt_seq_length chs - 2) 0
             else mc_text item = txt))"
  proof (cases "int (length txt) + tgt_seq_length chs + 2 > max_seq_length mcfg")
    case True
    then have lt: "max_seq_length mcfg - tgt_seq_length chs - 2 < int (length txt)" by simp
    from True show ?thesis
      by (auto simp add: multi_choice_process_single_item_def Let_def
          py_slice_suffix [OF lt] length_suffix [OF lt] simp del: length_drop
          split: if_splits)
  next
    case False
    then show ?thesis
      by (auto simp add: multi_choice_process_single_item_def Let_def split: if_splits)
  qed
qed

theorem truncation_keeps_suffix_witness:
  "(\<exists>item.
      generation_process_single_item \<lparr>max_seq_length = 50, max_gen_length = 10\<rparr>
        (map int [0..<100]) (FlatTargets [1]) = [item] \<and>
      gen_text item = map int [62..<100] \<and> length (gen_text item) = 38) \<and>
   (\<exists>item self'.
      multi_choice_process_single_item \<lparr>max_seq_length = 50, use_multitask_encoding = False\<rparr>
        (- 1) \<lparr>mc_data = [], is_single_token = True\<rparr>
        (map int [0..<100], [[1, 2, 3, 4, 5], [6, 7, 8, 9, 10]], 0) = Inr ([item], self') \<and>
      mc_text item = map int [62..<100])"
  using truncation_keeps_suffix [of "\<lparr>max_seq_length = 50, max_gen_length = 10\<rparr>"
      "map int [0..<100]" "FlatTargets [1]"
      "\<lparr>max_seq_length = 50, use_multitask_encoding = False\<rparr>" "- 1"
      "\<lparr>mc_data = [], is_single_token = True\<rparr>"
      "[[1, 2, 3, 4, 5], [6, 7, 8, 9, 10]]" 0]
  by (auto simp add: generation_process_single_item_def multi_choice_process_single_item_def
      tgt_seq_length_def Let_def py_slice_def slice_bound_def drop_map drop_upt)

text \<open>
  Claim C5 as stated fails where \<open>max_seq_length - max_gen_length - 2\<close> is negative: the
  slice is empty, and no text has a negative length. The multi-choice strategy accepts a
  target of length \<open>max_seq_length - 1\<close>, for which the length to keep is \<open>- 1\<close>.
\<close>

theorem truncation_negative_length_counterexample:
  "int (length [7 :: int]) + max_gen_length \<lparr>max_seq_length = 1, max_gen_length = 0\<rparr> + 2 >
     max_seq_length \<lparr>max_seq_length = 1, max_gen_length = 0\<rparr> \<and>
   generation_process_single_item \<lparr>max_seq_length = 1, max_gen_length = 0\<rparr> [7]
     (FlatTargets [9]) = [\<lparr>gen_text = [], gen_targets = [[9]]\<rparr>] \<and>
   int (length (gen_text \<lparr>gen_text = [], gen_targets = [[9]]\<rparr>)) \<noteq>
     max_seq_length \<lparr>max_seq_length = 1, max_gen_length = 0\<rparr> -
     max_gen_length \<lparr>max_seq_length = 1, max_gen_length = 0\<rparr> - 2 \<and>
   multi_choice_process_single_item \<lparr>max_seq_length = 3, use_multitask_encoding = False\<rparr>
     (- 1) \<lparr>mc_data = [], is_single_token = True\<rparr> ([7, 8, 9], [[1, 2]], 0) =
     Inr ([\<lparr>mc_text = [], mc_choices = [[1, 2]], mc_label = 0\<rparr>],
          \<lparr>mc_data = [], is_single_token = False\<rparr>) \<and>
   int (length (mc_text \<lparr>mc_text = [], mc_choices = [[1, 2 :: int]], mc_label = 0\<rparr>)) \<noteq>
     max_seq_length \<lparr>max_seq_length = 3, use_multitask_encoding = False\<rparr> -
     tgt_seq_length [[1, 2]] - 2"
  by (simp add: generation_process_single_item_def multi_choice_process_single_item_def
      tgt_seq_length_def Let_def py_slice_def slice_bound_def)

subsection \<open>The target length of a multi-choice record\<close>

lemma sum_lengths_ge:
  assumes "\<forall>c \<in> set chs. c \<noteq> []"
  shows "int (length chs) \<le> sum_list (map (\<lambda>choice. int (length choice)) chs)"
  using assms
proof (induction chs)
  case Nil
  then show ?case by simp
next
  case (Cons c chs)
  then have "1 \<le> int (length c)" by (cases c) simp_all
  with Cons show ?case by simp
qed

lemma sum_lengths_eq_iff:
  assumes "\<forall>c \<in> set chs. c \<noteq> []"
  shows "(sum_list (map (\<lambda>choice. int (length choice)) chs) = int (length chs)) =
           (\<forall>c \<in> set chs. length c = 1)"
  using assms
proof (induction chs)
  case Nil
  then show ?case by simp
next
  case (Cons c chs)
  then have c: "1 \<le> int (length c)" by (cases c) simp_all
  from Cons have ge: "int (length chs) \<le> sum_list (map (\<lambda>choice. int (length choice)) chs)"
    by (intro sum_lengths_ge) simp
  from Cons have IH: "(sum_list (map (\<lambda>choice. int (length choice)) chs) = int (length chs)) =
           (\<forall>c \<in> set chs. length c = 1)" by simp
  show ?case
  proof (cases "length c = 1")
    case True
    with IH show ?thesis by simp
  next
    case False
    with c have "2 \<le> int (length c)" by linarith
    with ge False show ?thesis by simp
  qed
qed

text \<open>
  Claim C6 at a record with an empty choice: the two choices \<open>[]\<close> and \<open>[1, 2]\<close> have two
  tokens together, as many as there are choices, so the target length is collapsed to 1
  and the dataset keeps \<open>is_single_token = True\<close>, although neither choice is a single
  token. The comment of the source reads \<^verbatim>\<open># For single token, we only insert one [sop]\<close>.
\<close>

theorem tgt_seq_length_empty_choice:
  "tgt_seq_length [[], [1, 2]] = 1 \<and>
   \<not> list_all (\<lambda>choice. length choice = 1) [[], [1, 2 :: int]] \<and>
   multi_choice_process_single_item \<lparr>max_seq_length = 10, use_multitask_encoding = False\<rparr>
     (- 1) \<lparr>mc_data = [], is_single_token = True\<rparr> ([7], [[], [1, 2]], 0) =
     Inr ([\<lparr>mc_text = [7], mc_choices = [[], [1, 2]], mc_label = 0\<rparr>],
          \<lparr>mc_data = [], is_single_token = True\<rparr>)"
  by (simp add: tgt_seq_length_def multi_choice_process_single_item_def Let_def)

text \<open>
  Claim C7, as the code has it: the assertion on the target length fails exactly when the
  collapsed target length, which is 1 when the choices have as many tokens together as
  there are choices and the sum of their lengths otherwise, is at least
  \<open>max_seq_length\<close>.
\<close>

theorem target_too_long_iff:
  "(multi_choice_process_single_item cfg mask_id self (txt, chs, lbl) =
      Inl (AssertionError TargetTooLong)) =
   (max_seq_length cfg \<le>
      (if sum_list (map (\<lambda>choice. int (length choice)) chs) = int (length chs) then 1
       else sum_list (map (\<lambda>choice. int (length choice)) chs)))"
  by (simp add: multi_choice_process_single_item_def tgt_seq_length_def Let_def)

text \<open>
  Claim C7 as stated fails: five choices of one token each have a summed length of 5,
  which is not below \<open>max_seq_length = 4\<close>, and the record is expanded without an error,
  because the assertion sees the collapsed length 1.
\<close>

theorem target_too_long_counterexample:
  "max_seq_length \<lparr>max_seq_length = 4, use_multitask_encoding = False\<rparr> \<le>
     sum_list (map (\<lambda>choice. int (length choice)) [[1], [2], [3], [4], [5 :: int]]) \<and>
   multi_choice_process_single_item \<lparr>max_seq_length = 4, use_multitask_encoding = False\<rparr>
     (- 1) \<lparr>mc_data = [], is_single_token = True\<rparr> ([7], [[1], [2], [3], [4], [5]], 0) =
     Inr ([\<lparr>mc_text = [7], mc_choices = [[1], [2], [3], [4], [5]], mc_label = 0\<rparr>],
          \<lparr>mc_data = [], is_single_token = True\<rparr>)"
  by (simp add: tgt_seq_length_def multi_choice_process_single_item_def Let_def)

subsection \<open>The flag \<^verbatim>\<open>is_single_token\<close>\<close>

lemma item_flag:
  assumes "multi_choice_process_single_item cfg m self item = Inr (its, self')"
  shows "is_single_token self' = (is_single_token self \<and> tgt_seq_length (fst (snd item)) = 1)"
  using assms
  by (cases item)
    (auto simp add: multi_choice_process_single_item_def Let_def split: if_splits)

lemma item_returns_any_state:
  assumes "multi_choice_process_single_item cfg m self item = Inr r"
  shows "\<exists>r'. multi_choice_process_single_item cfg m self2 item = Inr r'"
  using assms
  by (cases item)
    (auto simp add: multi_choice_process_single_item_def Let_def split: if_splits)

lemma file_flag:
  assumes "\<forall>item \<in> set items. \<exists>r. multi_choice_process_single_item cfg m s0 item = Inr r"
  shows "\<exists>self'. multi_choice_process_single_file cfg m self items = Inr self' \<and>
           is_single_token self' =
             (is_single_token self \<and> (\<forall>item \<in> set items. tgt_seq_length (fst (snd item)) = 1))"
  using assms
proof (induction items arbitrary: self)
  case Nil
  then show ?case by simp
next
  case (Cons item rest)
  then obtain r0 where "multi_choice_process_single_item cfg m s0 item = Inr r0" by auto
  from item_returns_any_state [OF this, of self]
  obtain its self1 where r: "multi_choice_process_single_item cfg m self item = Inr (its, self1)"
    by auto
  note f = item_flag [OF r]
  from Cons.prems have "\<forall>item \<in> set rest. \<exists>r. multi_choice_process_single_item cfg m s0 item = Inr r"
    by simp
  from Cons.IH [OF this, of "self1\<lparr>mc_data := mc_data self1 @ its\<rparr>"]
  obtain self' where
    s: "multi_choice_process_single_file cfg m (self1\<lparr>mc_data := mc_data self1 @ its\<rparr>) rest
          = Inr self'"
       "is_single_token self' =
          (is_single_token self1 \<and> (\<forall>item \<in> set rest. tgt_seq_length (fst (snd item)) = 1))"
    by auto
  from r s f show ?case by auto
qed

lemma files_flag:
  assumes "\<forall>item \<in> set (concat files). \<exists>r. multi_choice_process_single_item cfg m s0 item = Inr r"
  shows "\<exists>self'. multi_choice_process_files cfg m self files = Inr self' \<and>
           is_single_token self' =
             (is_single_token self \<and>
              (\<forall>item \<in> set (concat files). tgt_seq_length (fst (snd item)) = 1))"
  using assms
proof (induction files arbitrary: self)
  case Nil
  then show ?case by simp
next
  case (Cons fl rest)
  then have "\<forall>item \<in> set fl. \<exists>r. multi_choice_process_single_item cfg m s0 item = Inr r"
    by simp
  from file_flag [OF this, of self] obtain self1 where
    a: "multi_choice_process_single_file cfg m self fl = Inr self1"
       "is_single_token self1 =
          (is_single_token self \<and> (\<forall>item \<in> set fl. tgt_seq_length (fst (snd item)) = 1))"
    by auto
  from Cons.prems
  have "\<forall>item \<in> set (concat rest). \<exists>r. multi_choice_process_single_item cfg m s0 item = Inr r"
    by simp
  from Cons.IH [OF this, of self1] obtain self' where
    b: "multi_choice_process_files cfg m self1 rest = Inr self'"
       "is_single_token self' =
          (is_single_token self1 \<and>
           (\<forall>item \<in> set (concat rest). tgt_seq_length (fst (snd item)) = 1))"
    by auto
  from a b show ?case by auto
qed

text \<open>
  Claim C8: the flag is \<open>True\<close> when the expansion starts; expanding a record leaves it
  \<open>False\<close> if it was, and otherwise makes it \<open>False\<close> exactly when the record's collapsed
  target length is not 1. When every record passes its assertions the construction
  returns, and the final flag is \<open>False\<close> exactly when some record has a collapsed target
  length other than 1; the same records given in any other order or split into other
  files, reversed for one, end with the same flag.
\<close>

theorem is_single_token_monotonic:
  assumes "\<forall>item \<in> set (concat files).
             \<exists>r. multi_choice_process_single_item cfg mask_id
                    \<lparr>mc_data = [], is_single_token = True\<rparr> item = Inr r"
  shows "(\<exists>ds. multi_choice_init cfg mask_id files = Inr ds \<and>
            is_single_token ds =
              (\<forall>item \<in> set (concat files). tgt_seq_length (fst (snd item)) = 1) \<and>
            (\<forall>files'. set (concat files') = set (concat files) \<longrightarrow>
               (\<exists>ds'. multi_choice_init cfg mask_id files' = Inr ds' \<and>
                      is_single_token ds' = is_single_token ds))) \<and>
         (\<forall>self item its self'.
            multi_choice_process_single_item cfg mask_id self item = Inr (its, self') \<longrightarrow>
            is_single_token self' =
              (is_single_token self \<and> tgt_seq_length (fst (snd item)) = 1))"
proof (intro conjI allI impI)
  let ?s0 = "\<lparr>mc_data = [], is_single_token = True\<rparr>"
  from files_flag [OF assms, of ?s0] obtain ds where
    d: "multi_choice_init cfg mask_id files = Inr ds"
       "is_single_token ds =
          (\<forall>item \<in> set (concat files). tgt_seq_length (fst (snd item)) = 1)"
    by (auto simp: multi_choice_init_def)
  have R: "\<forall>files'. set (concat files') = set (concat files) \<longrightarrow>
               (\<exists>ds'. multi_choice_init cfg mask_id files' = Inr ds' \<and>
                      is_single_token ds' = is_single_token ds)"
  proof (intro allI impI)
    fix files' :: "multi_choice_record list list"
    assume eq: "set (concat files') = set (concat files)"
    with assms
    have "\<forall>item \<in> set (concat files').
            \<exists>r. multi_choice_process_single_item cfg mask_id ?s0 item = Inr r"
      by simp
    from files_flag [OF this, of ?s0] obtain ds' where
      e: "multi_choice_process_files cfg mask_id ?s0 files' = Inr ds'"
         "is_single_token ds' =
            (is_single_token ?s0 \<and>
             (\<forall>item \<in> set (concat files'). tgt_seq_length (fst (snd item)) = 1))"
      by (elim exE conjE)
    have "is_single_token ds' = is_single_token ds" unfolding e(2) d(2) eq by simp
    with e(1) show "\<exists>ds'. multi_choice_init cfg mask_id files' = Inr ds' \<and>
                      is_single_token ds' = is_single_token ds"
      by (simp add: multi_choice_init_def)
  qed
  from d R show "\<exists>ds. multi_choice_init cfg mask_id files = Inr ds \<and>
            is_single_token ds =
              (\<forall>item \<in> set (concat files). tgt_seq_length (fst (snd item)) = 1) \<and>
            (\<forall>files'. set (concat files') = set (concat files) \<longrightarrow>
               (\<exists>ds'. multi_choice_init cfg mask_id files' = Inr ds' \<and>
                      is_single_token ds' = is_single_token ds))"
    by (intro exI [of _ ds] conjI)
next
  fix self item its self'
  assume "multi_choice_process_single_item cfg mask_id self item = Inr (its, self')"
  then show "is_single_token self' =
              (is_single_token self \<and> tgt_seq_length (fst (snd item)) = 1)"
    by (rule item_flag)
qed

theorem is_single_token_monotonic_witness:
  "\<exists>ds ds'.
      multi_choice_init \<lparr>max_seq_length = 10, use_multitask_encoding = False\<rparr> (- 1)
        [[([7], [[1], [2]], 0), ([8], [[1, 2], [3]], 1)], [([9], [[4], [5]], 0)]] = Inr ds \<and>
      multi_choice_init \<lparr>max_seq_length = 10, use_multitask_encoding = False\<rparr> (- 1)
        [[([9], [[4], [5]], 0), ([8], [[1, 2], [3]], 1), ([7], [[1], [2]], 0)]] = Inr ds' \<and>
      \<not> is_single_token ds \<and> \<not> is_single_token ds'"
proof -
  let ?cfg = "\<lparr>max_seq_length = 10, use_multitask_encoding = False\<rparr>"
  let ?files = "[[([7], [[1], [2]], 0), ([8], [[1, 2], [3]], 1)], [([9], [[4], [5]], 0)]]
                  :: multi_choice_record list list"
  let ?rev = "[[([9], [[4], [5]], 0), ([8], [[1, 2], [3]], 1), ([7], [[1], [2]], 0)]]
                :: multi_choice_record list list"
  have h: "\<forall>item \<in> set (concat ?files).
             \<exists>r. multi_choice_process_single_item ?cfg (- 1)
                    \<lparr>mc_data = [], is_single_token = True\<rparr> item = Inr r"
    by (simp add: multi_choice_process_single_item_def tgt_seq_length_def Let_def)
  from is_single_token_monotonic [OF h] obtain ds where
    d: "multi_choice_init ?cfg (- 1) ?files = Inr ds"
       "is_single_token ds =
          (\<forall>item \<in> set (concat ?files). tgt_seq_length (fst (snd item)) = 1)"
       "\<forall>files'. set (concat files') = set (concat ?files) \<longrightarrow>
          (\<exists>ds'. multi_choice_init ?cfg (- 1) files' = Inr ds' \<and>
                 is_single_token ds' = is_single_token ds)"
    by (elim exE conjE)
  have "set (concat ?rev) = set (concat ?files)" by auto
  with d(3) obtain ds' where
    e: "multi_choice_init ?cfg (- 1) ?rev = Inr ds'" "is_single_token ds' = is_single_token ds"
    by blast
  from d(2) have n: "\<not> is_single_token ds" by (simp add: tgt_seq_length_def)
  with e(2) have "\<not> is_single_token ds'" by simp
  with d(1) e(1) n show ?thesis by (intro exI [of _ ds] exI [of _ ds'] conjI)
qed

subsection \<open>Cumulative window counts and the search in them\<close>





lemma bisect_loop_spec:
  assumes "\<forall>i j. i \<le> j \<and> j < length a \<longrightarrow> a ! i \<le> a ! j"
    and "lo \<le> hi" and "hi \<le> length a"
    and "\<forall>j < lo. a ! j \<le> x"
    and "\<forall>j. hi \<le> j \<and> j < length a \<longrightarrow> x < a ! j"
  shows "bisect_loop a x lo hi \<le> length a \<and>
         (\<forall>j < bisect_loop a x lo hi. a ! j \<le> x) \<and>
         (\<forall>j. bisect_loop a x lo hi \<le> j \<and> j < length a \<longrightarrow> x < a ! j)"
  using assms
proof (induction a x lo hi rule: bisect_loop.induct)
  case (1 a x lo hi)
  show ?case
  proof (cases "lo < hi")
    case False
    with "1.prems" have "lo = hi" by simp
    with "1.prems" False show ?thesis by (subst (1 2 3) bisect_loop.simps) simp
  next
    case True
    define mid where "mid = (lo + hi) div 2"
    from True have m: "lo \<le> mid" "mid < hi" by (simp_all add: mid_def)
    with "1.prems"(3) have ml: "mid < length a" by simp
    show ?thesis
    proof (cases "x < a ! mid")
      case lt: True
      have e: "bisect_loop a x lo hi = bisect_loop a x lo mid"
        using True lt by (subst bisect_loop.simps) (simp add: mid_def Let_def)
      have up: "\<forall>j. mid \<le> j \<and> j < length a \<longrightarrow> x < a ! j"
      proof (intro allI impI)
        fix j assume j: "mid \<le> j \<and> j < length a"
        with "1.prems"(1) have "a ! mid \<le> a ! j" by blast
        with lt show "x < a ! j" by simp
      qed
      from m ml have "mid \<le> length a" by simp
      from "1.IH"(1) [OF True mid_def lt "1.prems"(1) m(1) this "1.prems"(4) up]
      show ?thesis unfolding e .
    next
      case ge: False
      have e: "bisect_loop a x lo hi = bisect_loop a x (mid + 1) hi"
        using True ge by (subst bisect_loop.simps) (simp add: mid_def Let_def)
      have low: "\<forall>j < mid + 1. a ! j \<le> x"
      proof (intro allI impI)
        fix j assume "j < mid + 1"
        then have "j \<le> mid \<and> mid < length a" using ml by simp
        with "1.prems"(1) have "a ! j \<le> a ! mid" by blast
        with ge show "a ! j \<le> x" by simp
      qed
      from m have "mid + 1 \<le> hi" by simp
      from "1.IH"(2) [OF True mid_def ge "1.prems"(1) this "1.prems"(3) low "1.prems"(5)]
      show ?thesis unfolding e .
    qed
  qed
qed

lemma bisect_right_spec:
  assumes "\<forall>i j. i \<le> j \<and> j < length a \<longrightarrow> a ! i \<le> a ! j"
  shows "bisect_right a x \<le> length a \<and>
         (\<forall>j < bisect_right a x. a ! j \<le> x) \<and>
         (\<forall>j. bisect_right a x \<le> j \<and> j < length a \<longrightarrow> x < a ! j)"
  unfolding bisect_right_def
  by (rule bisect_loop_spec [OF assms]) simp_all











subsection \<open>The windows of one document\<close>

lemma py_ceil_div_ceiling:
  assumes "b \<noteq> 0"
  shows "py_ceil_div a b = Inr \<lceil>real_of_int a / real_of_int b\<rceil>"
  using assms by (simp add: py_ceil_div_def ceiling_divide_eq_div)

lemma ceiling_bounds:
  fixes a g :: int
  assumes "0 < g"
  shows "a \<le> \<lceil>real_of_int a / real_of_int g\<rceil> * g"
    and "(\<lceil>real_of_int a / real_of_int g\<rceil> - 1) * g < a"
proof -
  define q where "q = (- a) div g"
  define r where "r = (- a) mod g"
  have c: "\<lceil>real_of_int a / real_of_int g\<rceil> = - q"
    by (simp add: q_def ceiling_divide_eq_div)
  have e: "- a = q * g + r" by (simp add: q_def r_def)
  from assms have r: "0 \<le> r" "r < g" by (simp_all add: r_def)
  from e r show "a \<le> \<lceil>real_of_int a / real_of_int g\<rceil> * g"
    unfolding c by (simp add: algebra_simps)
  from e r show "(\<lceil>real_of_int a / real_of_int g\<rceil> - 1) * g < a"
    unfolding c by (simp add: algebra_simps)
qed

lemma language_model_init_single:
  assumes "generation_length cfg \<noteq> 0"
  shows "language_model_init cfg [(toks, words)] =
           Inr \<lparr>data = [\<lparr>raw_text = toks, num_original_tokens = words,
                         num_sequences =
                           max (\<lceil>real_of_int (max (int (length toks) - (max_seq_length cfg - 1)) 0) /
                                 real_of_int (generation_length cfg)\<rceil> + 1) 1\<rparr>],
                weights =
                  Some [max (\<lceil>real_of_int (max (int (length toks) - (max_seq_length cfg - 1)) 0) /
                              real_of_int (generation_length cfg)\<rceil> + 1) 1],
                left_weights = Some [0]\<rparr>"
  by (simp add: language_model_init_def language_model_process_single_file_def
      py_ceil_div_ceiling [OF assms] accumulate_def Let_def)

lemma bisect_right_single:
  assumes "i < n"
  shows "bisect_right [n] i = 0"
proof -
  have "\<forall>k j. k \<le> j \<and> j < length [n] \<longrightarrow> [n] ! k \<le> [n] ! j" by simp
  from bisect_right_spec [OF this, of i]
  have "\<forall>j < bisect_right [n] i. [n] ! j \<le> i" by simp
  with assms show ?thesis by (cases "bisect_right [n] i") auto
qed

lemma language_model_getitem_single:
  assumes "i < n"
  shows "language_model_getitem cfg \<lparr>data = [doc], weights = Some [n], left_weights = Some [0]\<rparr> i =
           Inr \<lparr>document_idx = 0, local_idx = i,
                start_idx = i * generation_length cfg,
                end_idx = i * generation_length cfg + max_seq_length cfg - 1,
                window_tokens =
                  py_slice (raw_text doc) (i * generation_length cfg)
                    (i * generation_length cfg + max_seq_length cfg - 1),
                is_first_segment = (i = 0)\<rparr>"
  by (simp add: language_model_getitem_def py_getitem_def Let_def
      bisect_right_single [OF assms])

lemma py_slice_nth:
  assumes "0 \<le> a" and "a \<le> p" and "p < b" and "p < int (length xs)"
  shows "py_slice xs a b ! nat (p - a) = xs ! nat p"
proof -
  from assms have lo: "slice_bound (length xs) a = nat a"
    by (simp add: slice_bound_def)
  from assms have hi: "slice_bound (length xs) b = min (nat b) (length xs)"
    by (simp add: slice_bound_def)
  from assms have "nat (p - a) < min (nat b) (length xs) - nat a" by linarith
  moreover from assms have "nat a + nat (p - a) = nat p" by linarith
  ultimately show ?thesis by (simp add: py_slice_def Let_def lo hi)
qed

text \<open>
  Claim C2, as the code has it: when \<open>1 \<le> generation_length \<le> max_seq_length - 1\<close>, a
  dataset built from one document of \<open>L\<close> tokens has
  \<open>max(ceil(max(L - (max_seq_length - 1), 0) / generation_length) + 1, 1)\<close> windows; every
  token position below \<open>L\<close> lies in the range \<open>[start, end)\<close> of one of them, whose slice
  holds that token; and two consecutive windows overlap in exactly
  \<open>max_seq_length - 1 - generation_length\<close> positions, all of them inside the document.
\<close>

theorem window_coverage:
  assumes "1 \<le> generation_length cfg"
    and "generation_length cfg \<le> max_seq_length cfg - 1"
  shows "\<exists>ds n.
           language_model_init cfg [(toks, words)] = Inr ds \<and>
           language_model_len ds = Inr n \<and>
           n = max (\<lceil>real_of_int (max (int (length toks) - (max_seq_length cfg - 1)) 0) /
                     real_of_int (generation_length cfg)\<rceil> + 1) 1 \<and>
           (\<forall>p. 0 \<le> p \<and> p < int (length toks) \<longrightarrow>
              (\<exists>i w. 0 \<le> i \<and> i < n \<and> language_model_getitem cfg ds i = Inr w \<and>
                     start_idx w \<le> p \<and> p < end_idx w \<and>
                     window_tokens w ! nat (p - start_idx w) = toks ! nat p)) \<and>
           (\<forall>i. 0 \<le> i \<and> i + 1 < n \<longrightarrow>
              (\<exists>w w'. language_model_getitem cfg ds i = Inr w \<and>
                      language_model_getitem cfg ds (i + 1) = Inr w' \<and>
                      start_idx w \<le> start_idx w' \<and> start_idx w' \<le> end_idx w \<and>
                      end_idx w \<le> end_idx w' \<and> end_idx w \<le> int (length toks) \<and>
                      end_idx w - start_idx w' =
                        max_seq_length cfg - 1 - generation_length cfg))"
proof -
  define G where "G = generation_length cfg"
  define M where "M = max_seq_length cfg"
  define L where "L = int (length toks)"
  define a where "a = max (L - (M - 1)) 0"
  define c where "c = \<lceil>real_of_int a / real_of_int G\<rceil>"
  define n where "n = max (c + 1) 1"
  define doc where "doc = \<lparr>raw_text = toks, num_original_tokens = words, num_sequences = n\<rparr>"
  define ds where "ds = \<lparr>data = [doc], weights = Some [n], left_weights = Some [0]\<rparr>"
  from assms have G: "0 < G" "G \<le> M - 1" by (simp_all add: G_def M_def)
  then have G0: "generation_length cfg \<noteq> 0" by (simp add: G_def)
  have init: "language_model_init cfg [(toks, words)] = Inr ds"
    unfolding language_model_init_single [OF G0]
    by (simp add: ds_def doc_def n_def c_def a_def L_def M_def G_def)
  have len: "language_model_len ds = Inr n"
    by (simp add: language_model_len_def py_getitem_def ds_def doc_def)
  have n_eq: "n = max (\<lceil>real_of_int (max (int (length toks) - (max_seq_length cfg - 1)) 0) /
                     real_of_int (generation_length cfg)\<rceil> + 1) 1"
    by (simp add: n_def c_def a_def L_def M_def G_def)
  have c1: "a \<le> c * G" unfolding c_def by (rule ceiling_bounds(1) [OF G(1)])
  have c2: "(c - 1) * G < a" unfolding c_def by (rule ceiling_bounds(2) [OF G(1)])
  have n1: "1 \<le> n" and nc: "c \<le> n - 1" by (simp_all add: n_def)
  have get: "language_model_getitem cfg ds i =
           Inr \<lparr>document_idx = 0, local_idx = i, start_idx = i * G,
                end_idx = i * G + M - 1,
                window_tokens = py_slice toks (i * G) (i * G + M - 1),
                is_first_segment = (i = 0)\<rparr>" if "i < n" for i
    using language_model_getitem_single [OF that, of cfg doc]
    by (simp add: ds_def doc_def G_def M_def)
  have cover: "\<forall>p. 0 \<le> p \<and> p < int (length toks) \<longrightarrow>
              (\<exists>i w. 0 \<le> i \<and> i < n \<and> language_model_getitem cfg ds i = Inr w \<and>
                     start_idx w \<le> p \<and> p < end_idx w \<and>
                     window_tokens w ! nat (p - start_idx w) = toks ! nat p)"
  proof (intro allI impI)
    fix p
    assume p: "0 \<le> p \<and> p < int (length toks)"
    define i where "i = min (p div G) (n - 1)"
    from p G(1) have q0: "0 \<le> p div G" by (simp add: pos_imp_zdiv_nonneg_iff)
    with n1 have i0: "0 \<le> i" by (simp add: i_def)
    have i1: "i < n" by (simp add: i_def)
    have e: "p = p div G * G + p mod G" by simp
    from G(1) have r: "0 \<le> p mod G" "p mod G < G" by simp_all
    have "i \<le> p div G" by (simp add: i_def)
    with G(1) have "i * G \<le> p div G * G" by (intro mult_right_mono) simp_all
    with e r(1) have lo: "i * G \<le> p" by linarith
    have hi: "p < i * G + M - 1"
    proof (cases "p div G \<le> n - 1")
      case True
      then have "i * G = p div G * G" by (simp add: i_def)
      with e r(2) G(2) show ?thesis by linarith
    next
      case False
      then have "i * G = (n - 1) * G" by (simp add: i_def)
      moreover from nc G(1) have "c * G \<le> (n - 1) * G" by (intro mult_right_mono) simp_all
      moreover have "L - (M - 1) \<le> a" by (simp add: a_def)
      ultimately have "L \<le> i * G + M - 1" using c1 by linarith
      with p show ?thesis by (simp add: L_def)
    qed
    from i0 G(1) have s0: "0 \<le> i * G" by simp
    from p have pl: "p < int (length toks)" by simp
    have nth: "py_slice toks (i * G) (i * G + M - 1) ! nat (p - i * G) = toks ! nat p"
      by (rule py_slice_nth [OF s0 lo hi pl])
    from i0 i1 lo hi nth
    show "\<exists>i w. 0 \<le> i \<and> i < n \<and> language_model_getitem cfg ds i = Inr w \<and>
                     start_idx w \<le> p \<and> p < end_idx w \<and>
                     window_tokens w ! nat (p - start_idx w) = toks ! nat p"
      by (intro exI [of _ i]) (simp add: get [OF i1])
  qed
  have overlap: "\<forall>i. 0 \<le> i \<and> i + 1 < n \<longrightarrow>
              (\<exists>w w'. language_model_getitem cfg ds i = Inr w \<and>
                      language_model_getitem cfg ds (i + 1) = Inr w' \<and>
                      start_idx w \<le> start_idx w' \<and> start_idx w' \<le> end_idx w \<and>
                      end_idx w \<le> end_idx w' \<and> end_idx w \<le> int (length toks) \<and>
                      end_idx w - start_idx w' =
                        max_seq_length cfg - 1 - generation_length cfg)"
  proof (intro allI impI)
    fix i
    assume i: "0 \<le> i \<and> i + 1 < n"
    then have i1: "i < n" and i2: "i + 1 < n" by simp_all
    from i have "n = c + 1" by (simp add: n_def max_def split: if_splits)
    with i have "i \<le> c - 1" by simp
    with G(1) have "i * G \<le> (c - 1) * G" by (intro mult_right_mono) simp_all
    with c2 have lt: "i * G < a" by simp
    from i G(1) have "0 \<le> i * G" by simp
    with lt have "a = L - (M - 1)" by (simp add: a_def max_def split: if_splits)
    with lt have inside: "i * G + M - 1 \<le> L" by simp
    have step: "(i + 1) * G = i * G + G" by (simp add: algebra_simps)
    from G inside step
    show "\<exists>w w'. language_model_getitem cfg ds i = Inr w \<and>
                      language_model_getitem cfg ds (i + 1) = Inr w' \<and>
                      start_idx w \<le> start_idx w' \<and> start_idx w' \<le> end_idx w \<and>
                      end_idx w \<le> end_idx w' \<and> end_idx w \<le> int (length toks) \<and>
                      end_idx w - start_idx w' =
                        max_seq_length cfg - 1 - generation_length cfg"
      unfolding get [OF i1] get [OF i2]
      by (simp add: L_def M_def G_def)
  qed
  from init len n_eq cover overlap show ?thesis
    by (intro exI [of _ ds] exI [of _ n] conjI)
qed

theorem window_coverage_witness:
  "1 \<le> generation_length \<lparr>max_seq_length = 3, generation_length = 1\<rparr> \<and>
   generation_length \<lparr>max_seq_length = 3, generation_length = 1\<rparr> \<le>
     max_seq_length \<lparr>max_seq_length = 3, generation_length = 1\<rparr> - 1 \<and>
   (\<exists>ds. language_model_init \<lparr>max_seq_length = 3, generation_length = 1\<rparr>
           [([1, 2, 3, 4], 1)] = Inr ds \<and>
         language_model_len ds = Inr 3 \<and>
         (\<exists>i w. 0 \<le> i \<and> i < 3 \<and>
            language_model_getitem \<lparr>max_seq_length = 3, generation_length = 1\<rparr> ds i = Inr w \<and>
            start_idx w \<le> 3 \<and> 3 < end_idx w \<and> window_tokens w ! nat (3 - start_idx w) = 4))"
proof -
  let ?cfg = "\<lparr>max_seq_length = 3, generation_length = 1\<rparr>"
  let ?toks = "[1, 2, 3, 4] :: int list"
  have h1: "1 \<le> generation_length ?cfg" by simp
  have h2: "generation_length ?cfg \<le> max_seq_length ?cfg - 1" by simp
  from window_coverage [OF h1 h2, of ?toks 1] obtain ds n where
    a: "language_model_init ?cfg [(?toks, 1)] = Inr ds" "language_model_len ds = Inr n"
    and n: "n = max (\<lceil>real_of_int (max (int (length ?toks) - (max_seq_length ?cfg - 1)) 0) /
                     real_of_int (generation_length ?cfg)\<rceil> + 1) 1"
    and cov: "\<forall>p. 0 \<le> p \<and> p < int (length ?toks) \<longrightarrow>
              (\<exists>i w. 0 \<le> i \<and> i < n \<and> language_model_getitem ?cfg ds i = Inr w \<and>
                     start_idx w \<le> p \<and> p < end_idx w \<and>
                     window_tokens w ! nat (p - start_idx w) = ?toks ! nat p)"
    by (elim exE conjE)
  from n have n3: "n = 3" by simp
  have "0 \<le> (3 :: int) \<and> 3 < int (length ?toks)" by simp
  with cov have "\<exists>i w. 0 \<le> i \<and> i < n \<and> language_model_getitem ?cfg ds i = Inr w \<and>
                     start_idx w \<le> 3 \<and> 3 < end_idx w \<and>
                     window_tokens w ! nat (3 - start_idx w) = ?toks ! nat 3"
    by blast
  moreover have "?toks ! nat 3 = 4" by (simp add: numeral_eq_Suc)
  ultimately have "\<exists>i w. 0 \<le> i \<and> i < 3 \<and> language_model_getitem ?cfg ds i = Inr w \<and>
                     start_idx w \<le> 3 \<and> 3 < end_idx w \<and>
                     window_tokens w ! nat (3 - start_idx w) = 4"
    unfolding n3 by simp
  with a n3 h1 h2 show ?thesis by (intro conjI exI [of _ ds]) simp_all
qed

text \<open>
  Claim C2 as stated fails when \<open>generation_length\<close> exceeds \<open>max_seq_length - 1\<close>: a
  document of 10 tokens with \<open>max_seq_length = 3\<close> and \<open>generation_length = 5\<close> has the three
  windows \<open>[0, 2)\<close>, \<open>[5, 7)\<close> and \<open>[10, 12)\<close>, and position 2 lies in none of them.
\<close>

theorem window_coverage_counterexample:
  "language_model_init \<lparr>max_seq_length = 3, generation_length = 5\<rparr>
     [([0, 1, 2, 3, 4, 5, 6, 7, 8, 9], 1)] =
     Inr \<lparr>data = [\<lparr>raw_text = [0, 1, 2, 3, 4, 5, 6, 7, 8, 9], num_original_tokens = 1,
                   num_sequences = 3\<rparr>],
          weights = Some [3], left_weights = Some [0]\<rparr> \<and>
   language_model_len
     \<lparr>data = [\<lparr>raw_text = [0, 1, 2, 3, 4, 5, 6, 7, 8, 9], num_original_tokens = 1,
               num_sequences = 3\<rparr>],
      weights = Some [3], left_weights = Some [0]\<rparr> = Inr 3 \<and>
   map (language_model_getitem \<lparr>max_seq_length = 3, generation_length = 5\<rparr>
          \<lparr>data = [\<lparr>raw_text = [0, 1, 2, 3, 4, 5, 6, 7, 8, 9], num_original_tokens = 1,
                    num_sequences = 3\<rparr>],
           weights = Some [3], left_weights = Some [0]\<rparr>) [0, 1, 2] =
     [Inr \<lparr>document_idx = 0, local_idx = 0, start_idx = 0, end_idx = 2,
           window_tokens = [0, 1], is_first_segment = True\<rparr>,
      Inr \<lparr>document_idx = 0, local_idx = 1, start_idx = 5, end_idx = 7,
           window_tokens = [5, 6], is_first_segment = False\<rparr>,
      Inr \<lparr>document_idx = 0, local_idx = 2, start_idx = 10, end_idx = 12,
           window_tokens = [], is_first_segment = False\<rparr>] \<and>
   \<not> (0 \<le> (2 :: int) \<and> (2 :: int) < 2) \<and> \<not> (5 \<le> (2 :: int) \<and> (2 :: int) < 7) \<and>
   \<not> (10 \<le> (2 :: int) \<and> (2 :: int) < 12)"
  by (simp add: language_model_init_def language_model_process_single_file_def
      py_ceil_div_def accumulate_def Let_def language_model_len_def py_getitem_def
      language_model_getitem_single py_slice_def slice_bound_def)

subsection \<open>The length of the language-model dataset\<close>

lemma language_model_len_single:
  assumes "generation_length cfg \<noteq> 0"
  shows "\<exists>ds n. language_model_init cfg [(toks, words)] = Inr ds \<and>
           language_model_len ds = Inr n \<and> weights ds = Some [n] \<and>
           map num_sequences (data ds) = [n]"
  unfolding language_model_init_single [OF assms]
  by (simp add: language_model_len_def py_getitem_def)

text \<open>
  Claim C4 at a dataset of two files: with \<open>max_seq_length = 3\<close> and
  \<open>generation_length = 1\<close> a document of 4 tokens has 3 windows and one of 3 tokens has 2.
  The list \<^verbatim>\<open>num_sequences\<close> of \<^verbatim>\<open>process_single_file\<close> starts empty for each file, so
  after the second file \<^verbatim>\<open>weights\<close> is \<open>[2]\<close>, and \<^verbatim>\<open>__len__\<close> reads the first document:
  the length is 3, which is neither the last cumulative count nor the 5 windows of the
  two documents.
\<close>

theorem language_model_len_two_files:
  "language_model_init \<lparr>max_seq_length = 3, generation_length = 1\<rparr>
     [([1, 2, 3, 4], 1), ([5, 6, 7], 1)] =
     Inr \<lparr>data = [\<lparr>raw_text = [1, 2, 3, 4], num_original_tokens = 1, num_sequences = 3\<rparr>,
                  \<lparr>raw_text = [5, 6, 7], num_original_tokens = 1, num_sequences = 2\<rparr>],
          weights = Some [2], left_weights = Some [0]\<rparr> \<and>
   language_model_len
     \<lparr>data = [\<lparr>raw_text = [1, 2, 3, 4], num_original_tokens = 1, num_sequences = 3\<rparr>,
              \<lparr>raw_text = [5, 6, 7], num_original_tokens = 1, num_sequences = 2\<rparr>],
      weights = Some [2], left_weights = Some [0]\<rparr> = Inr 3 \<and>
   sum_list (map num_sequences
     [\<lparr>raw_text = [1, 2, 3, 4], num_original_tokens = 1, num_sequences = 3\<rparr>,
      \<lparr>raw_text = [5, 6, 7], num_original_tokens = 1, num_sequences = 2\<rparr>]) = 5"
  by (simp add: language_model_init_def language_model_process_single_file_def
      py_ceil_div_def accumulate_def Let_def language_model_len_def py_getitem_def)

end
